theory Spec2Isabelle
  imports Complex_Main
begin

section \<open>JavaScript values as the request layer sees them\<close>

text \<open>
  The request handler of \<^verbatim>\<open>pages/api/smartrouter/index.ts\<close> reads its parameter
  object from \<^verbatim>\<open>req.query\<close> or from the parsed body; TypeScript's types are erased at
  run time, so a field holds any value a query string or a JSON document can carry.
  A number is an IEEE double: a finite value (both zeros are \<open>Finite 0\<close>), an infinity
  (\<^verbatim>\<open>JSON.parse("1e999")\<close>) or NaN. The code only tests numbers for truthiness, so the
  finite ones are kept as rationals.
\<close>

datatype jsnum = Finite rat | PosInfinity | NegInfinity | NaN

datatype jsval =
    JUndefined
  | JNull
  | JBool bool
  | JNum jsnum
  | JStr string
  | JArr "jsval list"
  | JObj "(string \<times> jsval) list"

text \<open>ToBoolean: what \<^verbatim>\<open>!x\<close> and \<^verbatim>\<open>x || y\<close> test.\<close>

fun nonzero :: "jsnum \<Rightarrow> bool" where
  "nonzero (Finite q) = (q \<noteq> 0)"
| "nonzero PosInfinity = True"
| "nonzero NegInfinity = True"
| "nonzero NaN = False"

fun truthy :: "jsval \<Rightarrow> bool" where
  "truthy JUndefined = False"
| "truthy JNull = False"
| "truthy (JBool b) = b"
| "truthy (JNum n) = nonzero n"
| "truthy (JStr s) = (s \<noteq> [])"
| "truthy (JArr xs) = True"
| "truthy (JObj kvs) = True"

text \<open>\<^verbatim>\<open>a || b\<close> and \<^verbatim>\<open>a ?? b\<close> on values.\<close>

definition js_or :: "jsval \<Rightarrow> jsval \<Rightarrow> jsval" where
  "js_or a b = (if truthy a then a else b)"

definition nullish :: "jsval \<Rightarrow> bool" where
  "nullish v = (v = JUndefined \<or> v = JNull)"

definition coalesce :: "jsval \<Rightarrow> jsval \<Rightarrow> jsval" where
  "coalesce a b = (if nullish a then b else a)"

text \<open>
  Property read \<^verbatim>\<open>v.k\<close>. The handler reads the keys chainId, amount, token0, token1,
  walletAddress, slippage, tradeType, deadline, address, decimals and debug: none of
  them is \<^verbatim>\<open>length\<close>, an index or a name on a prototype, so a string, a number, a
  boolean or an array answers undefined. The code reads a property only of a value it
  has found truthy (or of \<^verbatim>\<open>req.query\<close>), never of undefined or null. An object is
  the list of its own properties; a key is read at its first entry.
\<close>

fun js_get :: "jsval \<Rightarrow> string \<Rightarrow> jsval" where
  "js_get (JObj kvs) k = (case map_of kvs k of None \<Rightarrow> JUndefined | Some v \<Rightarrow> v)"
| "js_get v k = JUndefined"

section \<open>Thrown values\<close>

text \<open>
  An instance of Error with the fields \<^verbatim>\<open>handleError\<close> reads. Each field holds whatever
  the thrower stored; an absent one is undefined.
\<close>

record js_error =
  message :: jsval
  status :: jsval
  code :: jsval
  stack :: jsval
  cause :: jsval

datatype thrown = ErrorInstance js_error | Thrown jsval

text \<open>
  \<^verbatim>\<open>new Error(msg)\<close> and the engine's TypeError. The engine fills \<^verbatim>\<open>stack\<close> with the
  header line and the frames of the call site; the header is kept here.
\<close>

definition new_Error :: "string \<Rightarrow> thrown" where
  "new_Error msg = ErrorInstance
     \<lparr>message = JStr msg, status = JUndefined, code = JUndefined,
      stack = JStr (''Error: '' @ msg), cause = JUndefined\<rparr>"

definition new_TypeError :: "string \<Rightarrow> thrown" where
  "new_TypeError msg = ErrorInstance
     \<lparr>message = JStr msg, status = JUndefined, code = JUndefined,
      stack = JStr (''TypeError: '' @ msg), cause = JUndefined\<rparr>"

section \<open>Loose comparison with a string literal\<close>

text \<open>
  \<^verbatim>\<open>x != 'exactIn'\<close> converts an array or an object to a primitive first: an array joins
  the texts of its elements with commas (undefined and null give the empty text), a plain
  object gives \<^verbatim>\<open>[object Object]\<close>, and an object whose own \<^verbatim>\<open>toString\<close> is not
  callable (every value of a parsed document) makes the conversion throw a TypeError.
  The text of a number is one piece \<open>NumText\<close>: it holds no letter \<^verbatim>\<open>x\<close>, so it is no
  part of either literal the code compares with.
\<close>

datatype piece = Ch char | NumText jsnum

definition object_text :: "(string \<times> jsval) list \<Rightarrow> thrown + piece list" where
  "object_text kvs =
     (if map_of kvs ''toString'' \<noteq> None
      then Inl (new_TypeError ''Cannot convert object to primitive value'')
      else Inr (map Ch ''[object Object]''))"

fun elem_text :: "jsval \<Rightarrow> thrown + piece list"
  and join_text :: "jsval list \<Rightarrow> thrown + piece list" where
  "elem_text JUndefined = Inr []"
| "elem_text JNull = Inr []"
| "elem_text (JBool b) = Inr (map Ch (if b then ''true'' else ''false''))"
| "elem_text (JNum n) = Inr [NumText n]"
| "elem_text (JStr s) = Inr (map Ch s)"
| "elem_text (JArr xs) = join_text xs"
| "elem_text (JObj kvs) = object_text kvs"
| "join_text [] = Inr []"
| "join_text [x] = elem_text x"
| "join_text (x # y # ys) =
     (case elem_text x of
        Inl e \<Rightarrow> Inl e
      | Inr a \<Rightarrow>
          (case join_text (y # ys) of
             Inl e \<Rightarrow> Inl e
           | Inr b \<Rightarrow> Inr (a @ Ch CHR '','' # b)))"

text \<open>
  \<^verbatim>\<open>x == w\<close> for a literal \<open>w\<close> that is no numeric literal (ToNumber gives NaN, which
  equals no number and no boolean), as both literals of \<^verbatim>\<open>validateParams\<close> are.
\<close>

fun loose_eq :: "jsval \<Rightarrow> string \<Rightarrow> thrown + bool" where
  "loose_eq JUndefined w = Inr False"
| "loose_eq JNull w = Inr False"
| "loose_eq (JBool b) w = Inr False"
| "loose_eq (JNum n) w = Inr False"
| "loose_eq (JStr s) w = Inr (s = w)"
| "loose_eq (JArr xs) w =
     (case join_text xs of Inl e \<Rightarrow> Inl e | Inr t \<Rightarrow> Inr (t = map Ch w))"
| "loose_eq (JObj kvs) w =
     (case object_text kvs of Inl e \<Rightarrow> Inl e | Inr t \<Rightarrow> Inr (t = map Ch w))"

definition loose_ne :: "jsval \<Rightarrow> string \<Rightarrow> thrown + bool" where
  "loose_ne v w = (case loose_eq v w of Inl e \<Rightarrow> Inl e | Inr b \<Rightarrow> Inr (\<not> b))"

section \<open>The request, the response and the process environment\<close>

text \<open>
  \<^verbatim>\<open>req.query\<close> is always an object (its property list); \<^verbatim>\<open>req.method\<close> may be
  undefined. The response object is the log of the calls made on it, in order, together
  with the calls of \<^verbatim>\<open>validateParams\<close> and \<^verbatim>\<open>getRoute\<close> the handler makes.
\<close>

record request =
  req_method :: "string option"
  query :: "(string \<times> jsval) list"
  body :: jsval
  headers :: jsval

record ParamsOptions =
  chainId :: jsval
  amount :: jsval
  walletAddress :: jsval
  slippage :: jsval
  deadline :: jsval
  tradeType :: jsval
  token0 :: jsval
  token1 :: jsval

datatype method_tag = Get | Post

datatype event =
    SetHeader string string
  | Status jsval
  | Json jsval
  | End
  | Call_validateParams method_tag
  | Call_getRoute ParamsOptions

record process_env =
  NODE_ENV :: "string option"
  NEXT_PUBLIC_ALLOWED_ORIGIN :: "string option"

definition num :: "rat \<Rightarrow> jsval" where
  "num q = JNum (Finite q)"

section \<open>handleError\<close>

definition handleError :: "process_env \<Rightarrow> event list \<Rightarrow> thrown \<Rightarrow> event list" where
  "handleError env res error =
     (case error of
        ErrorInstance apiError \<Rightarrow>
          (let status' = coalesce (status apiError) (num 500);
               code' = coalesce (code apiError) status';
               payload =
                 [(''code'', code'),
                  (''message'', js_or (message apiError) (JStr ''Server internal error''))]
                 @ (if NODE_ENV env = Some ''development''
                    then [(''error'',
                           js_or (js_or (stack apiError) (cause apiError)) JUndefined)]
                    else [])
           in res @ [Status status', Json (JObj payload)])
      | Thrown v \<Rightarrow>
          (let message' = (case v of JStr s \<Rightarrow> JStr s | _ \<Rightarrow> JStr ''Server internal error'')
           in res @ [Status (num 500),
                     Json (JObj [(''code'', num 500), (''message'', message')])]))"

section \<open>validateParams\<close>

definition params_of :: "request \<Rightarrow> method_tag \<Rightarrow> jsval" where
  "params_of req m = (if m = Get then JObj (query req) else coalesce (body req) (JObj []))"

definition validateParams :: "request \<Rightarrow> method_tag \<Rightarrow> thrown + ParamsOptions" where
  "validateParams req m =
     (let paramsObj = params_of req m in
      if \<not> truthy paramsObj then Inl (new_Error ''params cannot be empty'')
      else if \<not> truthy (js_get paramsObj ''chainId'') \<or> \<not> truthy (js_get paramsObj ''amount'')
            \<or> \<not> truthy (js_get paramsObj ''token0'') \<or> \<not> truthy (js_get paramsObj ''token1'')
            \<or> \<not> truthy (js_get paramsObj ''walletAddress'')
            \<or> \<not> truthy (js_get paramsObj ''slippage'')
            \<or> \<not> truthy (js_get paramsObj ''tradeType'')
      then Inl (new_Error
        ''params[chainId,amountIn,token0,token1,walletAddress,slippage] cannot be empty'')
      else if \<not> truthy (js_get (js_get paramsObj ''token0'') ''address'')
            \<or> \<not> truthy (js_get (js_get paramsObj ''token0'') ''decimals'')
            \<or> \<not> truthy (js_get (js_get paramsObj ''token1'') ''address'')
            \<or> \<not> truthy (js_get (js_get paramsObj ''token1'') ''decimals'')
      then Inl (new_Error ''token(addrss,decimals) cannot be empty'')
      else
        (case loose_ne (js_get paramsObj ''tradeType'') ''exactIn'' of
           Inl e \<Rightarrow> Inl e
         | Inr ne_in \<Rightarrow>
             (case (if ne_in then loose_ne (js_get paramsObj ''tradeType'') ''exactOut''
                    else Inr False) of
                Inl e \<Rightarrow> Inl e
              | Inr bad \<Rightarrow>
                  if bad then Inl (new_Error ''tradeType type fix (exactIn | exactOut)'')
                  else Inr
                    \<lparr>chainId = js_get paramsObj ''chainId'',
                     amount = js_get paramsObj ''amount'',
                     walletAddress = js_get paramsObj ''walletAddress'',
                     slippage = js_get paramsObj ''slippage'',
                     deadline = js_get paramsObj ''deadline'',
                     tradeType = js_get paramsObj ''tradeType'',
                     token0 = js_get paramsObj ''token0'',
                     token1 = js_get paramsObj ''token1''\<rparr>)))"

section \<open>The handler\<close>

text \<open>
  \<^verbatim>\<open>getRoute\<close> is imported from \<^verbatim>\<open>./quote\<close>; the handler only awaits it, so it is a
  parameter here: it returns the route data or throws.
\<close>

definition cors_headers :: "process_env \<Rightarrow> event list" where
  "cors_headers env =
     [SetHeader ''Access-Control-Allow-Credentials'' ''true'',
      SetHeader ''Access-Control-Allow-Origin''
        (case NEXT_PUBLIC_ALLOWED_ORIGIN env of
           None \<Rightarrow> ''*''
         | Some origin \<Rightarrow> (if origin \<noteq> [] then origin else ''*'')),
      SetHeader ''Access-Control-Allow-Methods'' ''GET, POST, PUT, DELETE, OPTIONS'',
      SetHeader ''Access-Control-Allow-Headers'' ''Content-Type, Authorization, X-Cron-Token'']"

text \<open>
  The handler's local \<^verbatim>\<open>method\<close>: the tag it passes to \<open>validateParams\<close>, get for
  a GET request and post for every other method.
\<close>

definition handler_method :: "request \<Rightarrow> method_tag" where
  "handler_method req = (if req_method req = Some ''GET'' then Get else Post)"

definition handler ::
  "process_env \<Rightarrow> (ParamsOptions \<Rightarrow> thrown + jsval) \<Rightarrow> request \<Rightarrow> event list" where
  "handler env getRoute req =
     (let res = cors_headers env in
      if req_method req = Some ''OPTIONS'' then res @ [Status (num 204), End]
      else
        (let tag = handler_method req;
             debug = (case js_get (JObj (query req)) ''debug'' of
                        JStr s \<Rightarrow> Some s
                      | _ \<Rightarrow> None)
         in if debug = Some ''true''
            then res @ [Status (num 200),
                        Json (JObj [(''schedulerToken'', JStr ''''),
                                    (''environment'',
                                       (case NODE_ENV env of
                                          None \<Rightarrow> JUndefined
                                        | Some e \<Rightarrow> JStr e)),
                                    (''headers'', headers req)])]
            else
              (case validateParams req tag of
                 Inl error \<Rightarrow> handleError env (res @ [Call_validateParams tag]) error
               | Inr params \<Rightarrow>
                   (case getRoute params of
                      Inl error \<Rightarrow>
                        handleError env
                          (res @ [Call_validateParams tag, Call_getRoute params]) error
                    | Inr data \<Rightarrow>
                        res @ [Call_validateParams tag, Call_getRoute params,
                               Status (num 200),
                               Json (JObj [(''code'', num 200), (''data'', data),
                                           (''message'', JStr ''success'')])]))))"

section \<open>The request layer's contract, in the words of the design\<close>

text \<open>
  The design asks the request layer to confirm that tradeType is one of exact-in and
  exact-out, that both tokens carry a non-empty address and positive decimals, and that
  chain id and amount are present. \<open>spec_wellformed\<close> is that sentence, to be compared
  with what \<open>validateParams\<close> accepts.
\<close>

definition carries_address :: "jsval \<Rightarrow> bool" where
  "carries_address t = (case js_get t ''address'' of JStr s \<Rightarrow> s \<noteq> [] | _ \<Rightarrow> False)"

definition positive_decimals :: "jsval \<Rightarrow> bool" where
  "positive_decimals t =
     (case js_get t ''decimals'' of
        JNum (Finite d) \<Rightarrow> 0 < d
      | JNum PosInfinity \<Rightarrow> True
      | _ \<Rightarrow> False)"

definition spec_wellformed :: "jsval \<Rightarrow> bool" where
  "spec_wellformed obj =
     ((js_get obj ''tradeType'' = JStr ''exactIn'' \<or> js_get obj ''tradeType'' = JStr ''exactOut'')
      \<and> carries_address (js_get obj ''token0'') \<and> positive_decimals (js_get obj ''token0'')
      \<and> carries_address (js_get obj ''token1'') \<and> positive_decimals (js_get obj ''token1'')
      \<and> js_get obj ''chainId'' \<noteq> JUndefined \<and> js_get obj ''amount'' \<noteq> JUndefined)"

section \<open>Vocabulary of the statements\<close>

text \<open>
  A value the guards of \<open>validateParams\<close> call empty and that is not the number zero:
  undefined, null, false, NaN or the empty string.
\<close>

definition empty_value :: "jsval \<Rightarrow> bool" where
  "empty_value v = (\<not> truthy v \<and> v \<noteq> num 0)"

text \<open>The value compares equal (\<^verbatim>\<open>==\<close>) to one of the two trade type literals.\<close>

definition tradeType_ok :: "jsval \<Rightarrow> bool" where
  "tradeType_ok v =
     (loose_eq v ''exactIn'' = Inr True \<or> loose_eq v ''exactOut'' = Inr True)"

definition is_call :: "event \<Rightarrow> bool" where
  "is_call ev =
     (case ev of Call_validateParams m \<Rightarrow> True | Call_getRoute p \<Rightarrow> True | _ \<Rightarrow> False)"


section \<open>The Path Finder of the design\<close>

text \<open>
  Modelled from the spec: the route computation behind \<^verbatim>\<open>getRoute\<close> (module
  \<^verbatim>\<open>./quote\<close>) is not among the sources. A token is identified by its chain and its
  contract address.
\<close>

record Token =
  token_chain :: nat
  token_address :: string
  token_decimals :: nat
  token_symbol :: string

text \<open>Modelled from the spec: token identity is the pair of chain and address.\<close>

definition same_token :: "Token \<Rightarrow> Token \<Rightarrow> bool" where
  "same_token a b = (token_chain a = token_chain b \<and> token_address a = token_address b)"

text \<open>
  Modelled from the spec: an edge is one swap direction of a pool and refers to its
  source pool; the graph is the list of edges, looked up by source token.
\<close>

record Edge =
  tokenIn :: Token
  tokenOut :: Token
  pool :: nat

text \<open>Modelled from the spec: the error taxonomy of the route computation.\<close>

datatype RoutingError =
    InvalidRequest
  | NoRouteFound
  | InsufficientLiquidity
  | SlippageExceeded
  | DeadlineExceeded
  | RpcFailure
  | InternalComputationError

text \<open>
  Modelled from the spec: the bounded depth-first search of \<^verbatim>\<open>findPaths\<close>, which is not
  among the sources. Each branch carries the tokens it has visited; a path ends at the
  first edge into the output token and has at most \<open>hops\<close> edges.
\<close>

fun search :: "Edge list \<Rightarrow> Token \<Rightarrow> Token \<Rightarrow> Token list \<Rightarrow> nat \<Rightarrow> Edge list list" where
  "search graph cur out visited 0 = []"
| "search graph cur out visited (Suc hops) =
     concat (map
       (\<lambda>e. if same_token (tokenOut e) out then [[e]]
            else if \<exists>t \<in> set visited. same_token t (tokenOut e) then []
            else map ((#) e) (search graph (tokenOut e) out (tokenOut e # visited) hops))
       (filter (\<lambda>e. same_token (tokenIn e) cur) graph))"

text \<open>
  Modelled from the spec: \<^verbatim>\<open>findPaths(graph, inputToken, outputToken, maxHops, maxPaths)\<close>,
  which is not among the sources. Equal input and output tokens fail with InvalidRequest;
  candidates are ranked by hop count ascending and the top \<open>maxPaths\<close> are kept; no
  candidate at all fails with NoRouteFound.
\<close>

definition findPaths ::
  "Edge list \<Rightarrow> Token \<Rightarrow> Token \<Rightarrow> nat \<Rightarrow> nat \<Rightarrow> RoutingError + Edge list list" where
  "findPaths graph inputToken outputToken maxHops maxPaths =
     (if same_token inputToken outputToken then Inl InvalidRequest
      else
        (let ranked = sort_key length (search graph inputToken outputToken [inputToken] maxHops);
             kept = take maxPaths ranked
         in if kept = [] then Inl NoRouteFound else Inr kept))"

section \<open>Sample inputs\<close>

definition usdc :: jsval where
  "usdc = JObj [(''address'', JStr ''0xA0b8''), (''decimals'', num 6),
                (''symbol'', JStr ''USDC''), (''name'', JStr ''USD Coin'')]"

definition weth :: jsval where
  "weth = JObj [(''address'', JStr ''0xC02a''), (''decimals'', num 18),
                (''symbol'', JStr ''WETH''), (''name'', JStr ''Wrapped Ether'')]"

definition trade_body :: "jsval \<Rightarrow> jsval \<Rightarrow> jsval" where
  "trade_body amt slip =
     JObj [(''chainId'', num 1), (''amount'', amt), (''token0'', usdc), (''token1'', weth),
           (''walletAddress'', JStr ''0xW''), (''slippage'', slip),
           (''tradeType'', JStr ''exactIn'')]"

definition no_wallet_body :: jsval where
  "no_wallet_body =
     JObj [(''chainId'', num 1), (''amount'', num 1000), (''token0'', usdc), (''token1'', weth),
           (''slippage'', num 50), (''tradeType'', JStr ''exactIn'')]"

definition same_token_body :: jsval where
  "same_token_body =
     JObj [(''chainId'', num 1), (''amount'', num 1000), (''token0'', usdc), (''token1'', usdc),
           (''walletAddress'', JStr ''0xW''), (''slippage'', num 50),
           (''tradeType'', JStr ''exactIn'')]"

definition negative_decimals_body :: jsval where
  "negative_decimals_body =
     JObj [(''chainId'', num 1), (''amount'', num 1000),
           (''token0'', JObj [(''address'', JStr ''0xA0b8''), (''decimals'', num (- 1))]),
           (''token1'', weth), (''walletAddress'', JStr ''0xW''), (''slippage'', num 50),
           (''tradeType'', JStr ''exactIn'')]"

definition post_request :: "jsval \<Rightarrow> request" where
  "post_request b = \<lparr>req_method = Some ''POST'', query = [], body = b, headers = JObj []\<rparr>"

definition debug_request :: request where
  "debug_request =
     \<lparr>req_method = Some ''GET'', query = [(''debug'', JStr ''true'')], body = JUndefined,
      headers = JObj [(''host'', JStr ''localhost:8080'')]\<rparr>"

definition production :: process_env where
  "production = \<lparr>NODE_ENV = Some ''production'', NEXT_PUBLIC_ALLOWED_ORIGIN = None\<rparr>"

definition route_stub :: "ParamsOptions \<Rightarrow> thrown + jsval" where
  "route_stub params = Inr (JObj [(''amountOut'', JStr ''1'')])"

definition USDC :: Token where
  "USDC = \<lparr>token_chain = 1, token_address = ''0xA0b8'', token_decimals = 6,
           token_symbol = ''USDC''\<rparr>"

definition USDC_alias :: Token where
  "USDC_alias = \<lparr>token_chain = 1, token_address = ''0xA0b8'', token_decimals = 6,
           token_symbol = ''USD Coin''\<rparr>"

definition WETH :: Token where
  "WETH = \<lparr>token_chain = 1, token_address = ''0xC02a'', token_decimals = 18,
           token_symbol = ''WETH''\<rparr>"

definition DAI :: Token where
  "DAI = \<lparr>token_chain = 1, token_address = ''0x6B17'', token_decimals = 18,
           token_symbol = ''DAI''\<rparr>"

definition sample_graph :: "Edge list" where
  "sample_graph =
     [\<lparr>tokenIn = USDC, tokenOut = WETH, pool = 0\<rparr>, \<lparr>tokenIn = WETH, tokenOut = USDC, pool = 0\<rparr>,
      \<lparr>tokenIn = USDC, tokenOut = DAI, pool = 1\<rparr>, \<lparr>tokenIn = DAI, tokenOut = USDC, pool = 1\<rparr>,
      \<lparr>tokenIn = DAI, tokenOut = WETH, pool = 2\<rparr>, \<lparr>tokenIn = WETH, tokenOut = DAI, pool = 2\<rparr>]"

section \<open>Facts about validateParams\<close>

lemmas sample_defs = post_request_def trade_body_def no_wallet_body_def usdc_def weth_def
  params_of_def coalesce_def nullish_def num_def

lemma loose_eq_error_any:
  "loose_eq v w = Inl e \<Longrightarrow> loose_eq v w' = Inl e"
  by (cases v) (auto split: sum.splits)

lemma truthy_get_truthy: "truthy (js_get obj k) \<Longrightarrow> truthy obj"
  by (cases obj) auto

lemma validateParams_returns:
  assumes obj: "params_of req m = obj"
    and req: "truthy (js_get obj ''chainId'')" "truthy (js_get obj ''amount'')"
      "truthy (js_get obj ''token0'')" "truthy (js_get obj ''token1'')"
      "truthy (js_get obj ''walletAddress'')" "truthy (js_get obj ''slippage'')"
      "truthy (js_get obj ''tradeType'')"
    and tok: "truthy (js_get (js_get obj ''token0'') ''address'')"
      "truthy (js_get (js_get obj ''token0'') ''decimals'')"
      "truthy (js_get (js_get obj ''token1'') ''address'')"
      "truthy (js_get (js_get obj ''token1'') ''decimals'')"
    and tt: "tradeType_ok (js_get obj ''tradeType'')"
  shows "validateParams req m =
           Inr \<lparr>chainId = js_get obj ''chainId'', amount = js_get obj ''amount'',
                walletAddress = js_get obj ''walletAddress'',
                slippage = js_get obj ''slippage'', deadline = js_get obj ''deadline'',
                tradeType = js_get obj ''tradeType'', token0 = js_get obj ''token0'',
                token1 = js_get obj ''token1''\<rparr>"
proof -
  have t: "truthy obj" using req(1) by (rule truthy_get_truthy)
  from tt show ?thesis unfolding tradeType_ok_def
  proof
    assume "loose_eq (js_get obj ''tradeType'') ''exactIn'' = Inr True"
    then show ?thesis using obj t req tok
      by (simp add: validateParams_def loose_ne_def)
  next
    assume a: "loose_eq (js_get obj ''tradeType'') ''exactOut'' = Inr True"
    show ?thesis
    proof (cases "loose_eq (js_get obj ''tradeType'') ''exactIn''")
      case (Inl e)
      then show ?thesis using a loose_eq_error_any[OF Inl, of "''exactOut''"] by simp
    next
      case (Inr b)
      then show ?thesis using a obj t req tok
        by (simp add: validateParams_def loose_ne_def)
    qed
  qed
qed

lemma validateParams_throws_required:
  assumes "params_of req m = obj"
    and "\<not> truthy (js_get obj ''chainId'') \<or> \<not> truthy (js_get obj ''amount'')
         \<or> \<not> truthy (js_get obj ''token0'') \<or> \<not> truthy (js_get obj ''token1'')
         \<or> \<not> truthy (js_get obj ''walletAddress'') \<or> \<not> truthy (js_get obj ''slippage'')
         \<or> \<not> truthy (js_get obj ''tradeType'')"
  shows "validateParams req m = Inl (new_Error ''params cannot be empty'')
         \<or> validateParams req m = Inl (new_Error
              ''params[chainId,amountIn,token0,token1,walletAddress,slippage] cannot be empty'')"
  using assms by (auto simp add: validateParams_def)

lemma validateParams_throws_token:
  assumes "params_of req m = obj"
    and "\<not> truthy (js_get (js_get obj ''token0'') ''address'')
         \<or> \<not> truthy (js_get (js_get obj ''token0'') ''decimals'')
         \<or> \<not> truthy (js_get (js_get obj ''token1'') ''address'')
         \<or> \<not> truthy (js_get (js_get obj ''token1'') ''decimals'')"
  shows "\<exists>e. validateParams req m = Inl e"
  using assms by (auto simp add: validateParams_def)

lemma validateParams_throws_tradeType:
  assumes "params_of req m = obj" and "\<not> tradeType_ok (js_get obj ''tradeType'')"
  shows "\<exists>e. validateParams req m = Inl e"
proof (cases "loose_eq (js_get obj ''tradeType'') ''exactIn''")
  case (Inl e)
  then show ?thesis using assms(1)
    by (auto simp add: validateParams_def loose_ne_def)
next
  case (Inr b)
  note b = this
  show ?thesis
  proof (cases "loose_eq (js_get obj ''tradeType'') ''exactOut''")
    case (Inl e)
    then show ?thesis using assms b
      by (auto simp add: validateParams_def loose_ne_def tradeType_ok_def)
  next
    case (Inr c)
    then show ?thesis using assms b
      by (auto simp add: validateParams_def loose_ne_def tradeType_ok_def)
  qed
qed

lemma sample_accepted:
  "truthy amt \<Longrightarrow> truthy slip \<Longrightarrow>
   validateParams (post_request (trade_body amt slip)) Post =
     Inr \<lparr>chainId = num 1, amount = amt, walletAddress = JStr ''0xW'', slippage = slip,
          deadline = JUndefined, tradeType = JStr ''exactIn'', token0 = usdc, token1 = weth\<rparr>"
  by (simp add: validateParams_def loose_ne_def sample_defs)

section \<open>Facts about the handler\<close>

lemma cors_no_calls: "ev \<in> set (cors_headers env) \<Longrightarrow> \<not> is_call ev"
  by (auto simp add: cors_headers_def is_call_def)


lemma handleError_shape:
  "\<exists>st bd. handleError env res err = res @ [Status st, Json bd]"
  by (cases err) (auto simp add: handleError_def Let_def split: jsval.splits)

lemma findPaths_sample:
  "findPaths sample_graph USDC WETH 3 5 =
     Inr [[\<lparr>tokenIn = USDC, tokenOut = WETH, pool = 0\<rparr>],
          [\<lparr>tokenIn = USDC, tokenOut = DAI, pool = 1\<rparr>, \<lparr>tokenIn = DAI, tokenOut = WETH, pool = 2\<rparr>]]"
  by (simp add: findPaths_def sample_graph_def USDC_def WETH_def DAI_def same_token_def
      numeral_3_eq_3)


text \<open>
  Every non-zero slippage, in particular every value from 1 to 10000 basis points, passes
  the guard and is returned unchanged.
\<close>

lemma slippage_in_range_accepted:
  assumes "1 \<le> s" and "s \<le> 10000" and "truthy amt"
  shows "validateParams (post_request (trade_body amt (num s))) Post =
     Inr \<lparr>chainId = num 1, amount = amt, walletAddress = JStr ''0xW'', slippage = num s,
          deadline = JUndefined, tradeType = JStr ''exactIn'', token0 = usdc, token1 = weth\<rparr>"
  using assms by (intro sample_accepted) (simp_all add: num_def)

text \<open>
  \<open>validateParams\<close> does not compare the two tokens: a request whose token1 is its
  token0 is returned, and the handler passes it to \<open>getRoute\<close>.
\<close>

lemma equal_tokens_accepted:
  "validateParams (post_request (same_token_body)) Post =
     Inr \<lparr>chainId = num 1, amount = num 1000, walletAddress = JStr ''0xW'',
          slippage = num 50, deadline = JUndefined, tradeType = JStr ''exactIn'',
          token0 = usdc, token1 = usdc\<rparr>"
  by (simp add: validateParams_def loose_ne_def same_token_body_def sample_defs)

text \<open>
  The guards test a token's decimals for truthiness, not for sign: negative decimals are
  returned, although the design's sentence asks for positive decimals.
\<close>

lemma negative_decimals_accepted:
  "\<not> spec_wellformed (params_of (post_request negative_decimals_body) Post)
   \<and> validateParams (post_request negative_decimals_body) Post =
     Inr \<lparr>chainId = num 1, amount = num 1000, walletAddress = JStr ''0xW'',
          slippage = num 50, deadline = JUndefined, tradeType = JStr ''exactIn'',
          token0 = JObj [(''address'', JStr ''0xA0b8''), (''decimals'', num (- 1))],
          token1 = weth\<rparr>"
  by (simp add: validateParams_def loose_ne_def negative_decimals_body_def sample_defs
      spec_wellformed_def positive_decimals_def carries_address_def)

section \<open>Claims about request validation\<close>




text \<open>
  C2. A slippage of zero basis points is refused: the guard \<^verbatim>\<open>!paramsObj.slippage\<close> takes
  the number 0 for a missing field, and \<open>validateParams\<close> throws its "cannot be empty"
  error for a request that is well formed in every other field.
\<close>

theorem zero_slippage_rejected:
  "validateParams (post_request (trade_body (num 1000) (num 0))) Post =
     Inl (new_Error
       ''params[chainId,amountIn,token0,token1,walletAddress,slippage] cannot be empty'')"
  by (simp add: validateParams_def sample_defs)

theorem zero_slippage_rejected_witness:
  "isl (validateParams (post_request (trade_body (num 1000) (num 0))) Post)
   \<and> validateParams (post_request (trade_body (num 1000) (num 1))) Post =
       Inr \<lparr>chainId = num 1, amount = num 1000, walletAddress = JStr ''0xW'',
            slippage = num 1, deadline = JUndefined, tradeType = JStr ''exactIn'',
            token0 = usdc, token1 = weth\<rparr>"
  using zero_slippage_rejected sample_accepted [of "num 1000" "num 1"]
  by (simp add: num_def)

text \<open>
  C3, the claim as stated, fails: a body with no wallet address meets every condition of
  the sentence, and \<open>validateParams\<close> throws.
\<close>

theorem missing_wallet_rejected:
  "spec_wellformed (params_of (post_request no_wallet_body) Post)
   \<and> validateParams (post_request no_wallet_body) Post =
       Inl (new_Error
         ''params[chainId,amountIn,token0,token1,walletAddress,slippage] cannot be empty'')"
  by (simp add: validateParams_def spec_wellformed_def carries_address_def
      positive_decimals_def sample_defs)

text \<open>
  C3 (as amended). \<open>validateParams\<close> returns the parameters, each field copied unchanged,
  when chainId, amount, token0, token1, walletAddress, slippage and tradeType are all
  truthy, both tokens carry a truthy address and truthy decimals, and tradeType compares
  equal to exactIn or exactOut. It throws when amount, token0, token1, walletAddress or
  tradeType is falsy, when chainId or slippage is empty (falsy and not the number zero),
  when a token's address or decimals is falsy, or when tradeType is neither literal.
\<close>

theorem validateParams_accepts_and_rejects:
  assumes "params_of req m = obj"
  shows "(truthy (js_get obj ''chainId'') \<and> truthy (js_get obj ''amount'')
          \<and> truthy (js_get obj ''token0'') \<and> truthy (js_get obj ''token1'')
          \<and> truthy (js_get obj ''walletAddress'') \<and> truthy (js_get obj ''slippage'')
          \<and> truthy (js_get obj ''tradeType'')
          \<and> truthy (js_get (js_get obj ''token0'') ''address'')
          \<and> truthy (js_get (js_get obj ''token0'') ''decimals'')
          \<and> truthy (js_get (js_get obj ''token1'') ''address'')
          \<and> truthy (js_get (js_get obj ''token1'') ''decimals'')
          \<and> tradeType_ok (js_get obj ''tradeType'')
          \<longrightarrow> validateParams req m =
                Inr \<lparr>chainId = js_get obj ''chainId'', amount = js_get obj ''amount'',
                     walletAddress = js_get obj ''walletAddress'',
                     slippage = js_get obj ''slippage'', deadline = js_get obj ''deadline'',
                     tradeType = js_get obj ''tradeType'', token0 = js_get obj ''token0'',
                     token1 = js_get obj ''token1''\<rparr>)
         \<and> (\<not> truthy (js_get obj ''amount'') \<or> \<not> truthy (js_get obj ''token0'')
             \<or> \<not> truthy (js_get obj ''token1'') \<or> \<not> truthy (js_get obj ''walletAddress'')
             \<or> \<not> truthy (js_get obj ''tradeType'')
             \<or> empty_value (js_get obj ''chainId'') \<or> empty_value (js_get obj ''slippage'')
             \<or> \<not> truthy (js_get (js_get obj ''token0'') ''address'')
             \<or> \<not> truthy (js_get (js_get obj ''token0'') ''decimals'')
             \<or> \<not> truthy (js_get (js_get obj ''token1'') ''address'')
             \<or> \<not> truthy (js_get (js_get obj ''token1'') ''decimals'')
             \<or> \<not> tradeType_ok (js_get obj ''tradeType'')
             \<longrightarrow> (\<exists>e. validateParams req m = Inl e))"
proof (intro conjI impI)
  assume "truthy (js_get obj ''chainId'') \<and> truthy (js_get obj ''amount'')
          \<and> truthy (js_get obj ''token0'') \<and> truthy (js_get obj ''token1'')
          \<and> truthy (js_get obj ''walletAddress'') \<and> truthy (js_get obj ''slippage'')
          \<and> truthy (js_get obj ''tradeType'')
          \<and> truthy (js_get (js_get obj ''token0'') ''address'')
          \<and> truthy (js_get (js_get obj ''token0'') ''decimals'')
          \<and> truthy (js_get (js_get obj ''token1'') ''address'')
          \<and> truthy (js_get (js_get obj ''token1'') ''decimals'')
          \<and> tradeType_ok (js_get obj ''tradeType'')"
  then show "validateParams req m =
                Inr \<lparr>chainId = js_get obj ''chainId'', amount = js_get obj ''amount'',
                     walletAddress = js_get obj ''walletAddress'',
                     slippage = js_get obj ''slippage'', deadline = js_get obj ''deadline'',
                     tradeType = js_get obj ''tradeType'', token0 = js_get obj ''token0'',
                     token1 = js_get obj ''token1''\<rparr>"
    using validateParams_returns [OF assms] by blast
next
  assume b: "\<not> truthy (js_get obj ''amount'') \<or> \<not> truthy (js_get obj ''token0'')
             \<or> \<not> truthy (js_get obj ''token1'') \<or> \<not> truthy (js_get obj ''walletAddress'')
             \<or> \<not> truthy (js_get obj ''tradeType'')
             \<or> empty_value (js_get obj ''chainId'') \<or> empty_value (js_get obj ''slippage'')
             \<or> \<not> truthy (js_get (js_get obj ''token0'') ''address'')
             \<or> \<not> truthy (js_get (js_get obj ''token0'') ''decimals'')
             \<or> \<not> truthy (js_get (js_get obj ''token1'') ''address'')
             \<or> \<not> truthy (js_get (js_get obj ''token1'') ''decimals'')
             \<or> \<not> tradeType_ok (js_get obj ''tradeType'')"
  consider
      (required) "\<not> truthy (js_get obj ''chainId'') \<or> \<not> truthy (js_get obj ''amount'')
         \<or> \<not> truthy (js_get obj ''token0'') \<or> \<not> truthy (js_get obj ''token1'')
         \<or> \<not> truthy (js_get obj ''walletAddress'') \<or> \<not> truthy (js_get obj ''slippage'')
         \<or> \<not> truthy (js_get obj ''tradeType'')"
    | (token) "\<not> truthy (js_get (js_get obj ''token0'') ''address'')
         \<or> \<not> truthy (js_get (js_get obj ''token0'') ''decimals'')
         \<or> \<not> truthy (js_get (js_get obj ''token1'') ''address'')
         \<or> \<not> truthy (js_get (js_get obj ''token1'') ''decimals'')"
    | (trade) "\<not> tradeType_ok (js_get obj ''tradeType'')"
    using b unfolding empty_value_def by blast
  then show "\<exists>e. validateParams req m = Inl e"
  proof cases
    case required
    then show ?thesis using validateParams_throws_required [OF assms] by blast
  next
    case token
    then show ?thesis using validateParams_throws_token [OF assms] by blast
  next
    case trade
    then show ?thesis using validateParams_throws_tradeType [OF assms] by blast
  qed
qed

theorem validateParams_accepts_and_rejects_witness:
  "validateParams (post_request (trade_body (num 1000) (num 50))) Post =
     Inr \<lparr>chainId = num 1, amount = num 1000, walletAddress = JStr ''0xW'',
          slippage = num 50, deadline = JUndefined, tradeType = JStr ''exactIn'',
          token0 = usdc, token1 = weth\<rparr>
   \<and> (\<exists>e. validateParams (post_request no_wallet_body) Post = Inl e)"
proof -
  have a: "params_of (post_request (trade_body (num 1000) (num 50))) Post
             = trade_body (num 1000) (num 50)"
    and b: "params_of (post_request no_wallet_body) Post = no_wallet_body"
    by (simp_all add: sample_defs)
  from validateParams_accepts_and_rejects [OF a] validateParams_accepts_and_rejects [OF b]
  show ?thesis
    by (simp add: tradeType_ok_def trade_body_def no_wallet_body_def usdc_def weth_def num_def)
qed

text \<open>
  No guard of \<open>validateParams\<close> reads the deadline: a parameter object that passes every
  guard and has no deadline field is returned with deadline undefined.
\<close>

lemma deadline_not_required:
  assumes "params_of req m = obj"
    and "js_get obj ''deadline'' = JUndefined"
    and "truthy (js_get obj ''chainId'')" "truthy (js_get obj ''amount'')"
      "truthy (js_get obj ''token0'')" "truthy (js_get obj ''token1'')"
      "truthy (js_get obj ''walletAddress'')" "truthy (js_get obj ''slippage'')"
      "truthy (js_get obj ''tradeType'')"
    and "truthy (js_get (js_get obj ''token0'') ''address'')"
      "truthy (js_get (js_get obj ''token0'') ''decimals'')"
      "truthy (js_get (js_get obj ''token1'') ''address'')"
      "truthy (js_get (js_get obj ''token1'') ''decimals'')"
    and "tradeType_ok (js_get obj ''tradeType'')"
  shows "validateParams req m =
           Inr \<lparr>chainId = js_get obj ''chainId'', amount = js_get obj ''amount'',
                walletAddress = js_get obj ''walletAddress'',
                slippage = js_get obj ''slippage'', deadline = JUndefined,
                tradeType = js_get obj ''tradeType'', token0 = js_get obj ''token0'',
                token1 = js_get obj ''token1''\<rparr>"
  using validateParams_returns [OF assms(1) assms(3-14)] assms(2) by simp

lemma deadline_not_required_sample:
  "js_get (trade_body (num 1000) (num 50)) ''deadline'' = JUndefined
   \<and> validateParams (post_request (trade_body (num 1000) (num 50))) Post =
     Inr \<lparr>chainId = num 1, amount = num 1000, walletAddress = JStr ''0xW'',
          slippage = num 50, deadline = JUndefined, tradeType = JStr ''exactIn'',
          token0 = usdc, token1 = weth\<rparr>"
proof -
  have a: "params_of (post_request (trade_body (num 1000) (num 50))) Post
             = trade_body (num 1000) (num 50)"
    by (simp add: sample_defs)
  have d: "js_get (trade_body (num 1000) (num 50)) ''deadline'' = JUndefined"
    by (simp add: trade_body_def)
  from d deadline_not_required [OF a d]
  show ?thesis
    by (simp add: tradeType_ok_def trade_body_def usdc_def weth_def num_def)
qed

text \<open>
  C10. A request with no deadline field whose other fields are all present and well
  formed, with a slippage of zero basis points, is refused: \<open>validateParams\<close> throws its
  "cannot be empty" error where the deadline is said not to be required. The refusal comes
  from the guard \<^verbatim>\<open>!paramsObj.slippage\<close>, which takes the number 0 for a missing field
  (the defect of C2); the deadline itself is read by no guard.
\<close>

theorem no_deadline_zero_slippage_rejected:
  "js_get (params_of (post_request (trade_body (num 1000) (num 0))) Post) ''deadline''
     = JUndefined
   \<and> js_get (params_of (post_request (trade_body (num 1000) (num 0))) Post) ''slippage''
     = num 0
   \<and> js_get (params_of (post_request (trade_body (num 1000) (num 0))) Post) ''walletAddress''
     = JStr ''0xW''
   \<and> spec_wellformed (params_of (post_request (trade_body (num 1000) (num 0))) Post)
   \<and> validateParams (post_request (trade_body (num 1000) (num 0))) Post =
       Inl (new_Error
         ''params[chainId,amountIn,token0,token1,walletAddress,slippage] cannot be empty'')"
  by (simp add: validateParams_def spec_wellformed_def carries_address_def
      positive_decimals_def sample_defs)

theorem no_deadline_zero_slippage_rejected_witness:
  "isl (validateParams (post_request (trade_body (num 1000) (num 0))) Post)
   \<and> validateParams (post_request (trade_body (num 1000) (num 50))) Post =
       Inr \<lparr>chainId = num 1, amount = num 1000, walletAddress = JStr ''0xW'',
            slippage = num 50, deadline = JUndefined, tradeType = JStr ''exactIn'',
            token0 = usdc, token1 = weth\<rparr>"
  using no_deadline_zero_slippage_rejected deadline_not_required_sample
  by simp

section \<open>Claims about the handler\<close>

text \<open>
  C8. Debug bypass: for every request whose method is not OPTIONS and whose query
  parameter debug is the string true, the handler sets the CORS headers and answers with
  status 200 and a body that echoes the process environment name and the inbound request
  headers; it calls neither \<open>validateParams\<close> nor \<open>getRoute\<close>, whatever the trade
  parameters are.
\<close>

theorem handler_debug_bypass:
  assumes "req_method req \<noteq> Some ''OPTIONS''"
    and "js_get (JObj (query req)) ''debug'' = JStr ''true''"
  shows "handler env getRoute req =
           cors_headers env @
           [Status (num 200),
            Json (JObj [(''schedulerToken'', JStr ''''),
                        (''environment'',
                           (case NODE_ENV env of None \<Rightarrow> JUndefined | Some e \<Rightarrow> JStr e)),
                        (''headers'', headers req)])]
         \<and> (\<forall>ev \<in> set (handler env getRoute req). \<not> is_call ev)"
proof -
  have eq: "handler env getRoute req =
           cors_headers env @
           [Status (num 200),
            Json (JObj [(''schedulerToken'', JStr ''''),
                        (''environment'',
                           (case NODE_ENV env of None \<Rightarrow> JUndefined | Some e \<Rightarrow> JStr e)),
                        (''headers'', headers req)])]"
    using assms by (simp add: handler_def Let_def del: js_get.simps)
  have "\<not> is_call ev" if "ev \<in> set (handler env getRoute req)" for ev
    using that cors_no_calls [of ev env] unfolding eq
    by (auto simp add: is_call_def)
  with eq show ?thesis by blast
qed

theorem handler_debug_bypass_witness:
  "req_method debug_request \<noteq> Some ''OPTIONS''
   \<and> js_get (JObj (query debug_request)) ''debug'' = JStr ''true''
   \<and> validateParams debug_request Get =
       Inl (new_Error
         ''params[chainId,amountIn,token0,token1,walletAddress,slippage] cannot be empty'')
   \<and> handler production route_stub debug_request =
       cors_headers production @
       [Status (num 200),
        Json (JObj [(''schedulerToken'', JStr ''''),
                    (''environment'', JStr ''production''),
                    (''headers'', JObj [(''host'', JStr ''localhost:8080'')])])]"
proof -
  have m: "req_method debug_request \<noteq> Some ''OPTIONS''"
    and d: "js_get (JObj (query debug_request)) ''debug'' = JStr ''true''"
    by (simp_all add: debug_request_def)
  have v: "validateParams debug_request Get =
       Inl (new_Error
         ''params[chainId,amountIn,token0,token1,walletAddress,slippage] cannot be empty'')"
    by (simp add: validateParams_def debug_request_def params_of_def)
  from m d v handler_debug_bypass [OF m d, of production route_stub]
  show ?thesis
    by (simp add: production_def debug_request_def)
qed

text \<open>
  C9. \<open>handleError\<close> always adds exactly one status and one JSON body to the response.
  For an Error the status is its status field, or 500 when that is undefined or null; the
  body's code is its code field, or that status; the message is its message, or
  "Server internal error" when the message is falsy. For a thrown string the response is
  status 500 with code 500 and that string as message; for every other thrown value it
  is status 500 with code 500 and the message "Server internal error".
\<close>

theorem handleError_response:
  "(\<exists>bd. handleError env res (ErrorInstance e) =
            res @ [Status (if nullish (status e) then num 500 else status e), Json bd]
        \<and> js_get bd ''code'' =
            (if nullish (code e) then (if nullish (status e) then num 500 else status e)
             else code e)
        \<and> js_get bd ''message'' =
            (if truthy (message e) then message e else JStr ''Server internal error''))
   \<and> handleError env res (Thrown (JStr s)) =
       res @ [Status (num 500), Json (JObj [(''code'', num 500), (''message'', JStr s)])]
   \<and> ((\<forall>t. v \<noteq> JStr t) \<longrightarrow>
        handleError env res (Thrown v) =
          res @ [Status (num 500),
                 Json (JObj [(''code'', num 500),
                             (''message'', JStr ''Server internal error'')])])"
proof (intro conjI impI)
  show "\<exists>bd. handleError env res (ErrorInstance e) =
            res @ [Status (if nullish (status e) then num 500 else status e), Json bd]
        \<and> js_get bd ''code'' =
            (if nullish (code e) then (if nullish (status e) then num 500 else status e)
             else code e)
        \<and> js_get bd ''message'' =
            (if truthy (message e) then message e else JStr ''Server internal error'')"
    by (simp add: handleError_def Let_def coalesce_def js_or_def)
next
  show "handleError env res (Thrown (JStr s)) =
       res @ [Status (num 500), Json (JObj [(''code'', num 500), (''message'', JStr s)])]"
    by (simp add: handleError_def)
next
  assume "\<forall>t. v \<noteq> JStr t"
  then show "handleError env res (Thrown v) =
          res @ [Status (num 500),
                 Json (JObj [(''code'', num 500),
                             (''message'', JStr ''Server internal error'')])]"
    by (cases v) (simp_all add: handleError_def)
qed

theorem handleError_response_witness:
  "(\<exists>bd. handleError production []
            (ErrorInstance \<lparr>message = JStr ''no route'', status = num 404, code = JUndefined,
                            stack = JUndefined, cause = JUndefined\<rparr>) =
            [Status (num 404), Json bd]
        \<and> js_get bd ''code'' = num 404 \<and> js_get bd ''message'' = JStr ''no route'')
   \<and> handleError production [] (Thrown (JStr ''boom'')) =
       [Status (num 500), Json (JObj [(''code'', num 500), (''message'', JStr ''boom'')])]
   \<and> handleError production [] (Thrown (num 7)) =
       [Status (num 500),
        Json (JObj [(''code'', num 500), (''message'', JStr ''Server internal error'')])]"
  using handleError_response [of production "[]"
      "\<lparr>message = JStr ''no route'', status = num 404, code = JUndefined,
        stack = JUndefined, cause = JUndefined\<rparr>" "''boom''" "num 7"]
  by (simp add: nullish_def num_def)

section \<open>Claims about the Path Finder of the design\<close>

text \<open>
  C4. A request whose input token equals its output token (same address on the same
  chain) fails with InvalidRequest: \<open>findPaths\<close> returns no path for it, whatever the
  graph and the bounds.
\<close>

theorem findPaths_same_token:
  assumes "same_token inputToken outputToken"
  shows "findPaths graph inputToken outputToken maxHops maxPaths = Inl InvalidRequest"
  using assms by (simp add: findPaths_def)

theorem findPaths_same_token_witness:
  "same_token USDC USDC_alias \<and> findPaths sample_graph USDC USDC_alias 3 5 = Inl InvalidRequest"
proof -
  have h: "same_token USDC USDC_alias"
    by (simp add: same_token_def USDC_def USDC_alias_def)
  from h findPaths_same_token [OF h, of sample_graph 3 5] show ?thesis by simp
qed

end
